theory Spec2Isabelle
  imports Main
begin

section \<open>The katib-ui charm: data model\<close>

text \<open>
  The charm (\<^verbatim>\<open>src/charms/katib-ui/src/charm.py\<close>) is one class, \<^verbatim>\<open>Operator\<close>, with
  three event handlers: \<^verbatim>\<open>set_pod_spec\<close> and the two sidebar relation handlers.
  Everything the handlers read from the operator framework and the two helper
  libraries (leadership, the negotiated interfaces, the image resource, the
  configuration, the names) is an input of the model, collected in the record
  \<open>env\<close>; everything they write (the unit status, the pod spec, the data sent
  over the ingress relation) is recorded in the record \<open>state\<close>.
\<close>

subsection \<open>Python values\<close>

text \<open>
  The dictionaries, lists, strings and numbers the charm builds. A dictionary is an
  association list in the order the literal is written. A string is a list of
  code points below 256.
\<close>

datatype pyval =
    VNone
  | VBool bool
  | VInt int
  | VStr string
  | VList "pyval list"
  | VDict "(string \<times> pyval) list"

text \<open>\<^verbatim>\<open>d[k]\<close> on a dictionary value, \<open>None\<close> where Python raises \<^verbatim>\<open>KeyError\<close>.\<close>

fun dict_get :: "pyval \<Rightarrow> string \<Rightarrow> pyval option" where
  "dict_get (VDict kvs) k = map_of kvs k"
| "dict_get _ k = None"

text \<open>
  A configuration option of the operator framework holds a string, an integer or a
  boolean (floating point options are left out of the model).
\<close>

datatype config_value = CInt int | CStr string | CBool bool

fun to_pyval :: "config_value \<Rightarrow> pyval" where
  "to_pyval (CInt i) = VInt i"
| "to_pyval (CStr s) = VStr s"
| "to_pyval (CBool b) = VBool b"

subsection \<open>Formatting: \<^verbatim>\<open>str\<close> of a configuration value\<close>

definition digit_char :: "nat \<Rightarrow> char" where
  "digit_char d = ''0123456789'' ! d"

fun dec_digits :: "nat \<Rightarrow> string" where
  "dec_digits n =
     (if n < 10 then [digit_char n] else dec_digits (n div 10) @ [digit_char (n mod 10)])"

declare dec_digits.simps [simp del]

definition str_int :: "int \<Rightarrow> string" where
  "str_int i = (if i < 0 then CHR ''-'' # dec_digits (nat (- i)) else dec_digits (nat i))"

text \<open>What an f-string substitutes for \<^verbatim>\<open>{v}\<close>: \<^verbatim>\<open>str(v)\<close>.\<close>

fun py_str :: "config_value \<Rightarrow> string" where
  "py_str (CInt i) = str_int i"
| "py_str (CStr s) = s"
| "py_str (CBool b) = (if b then ''True'' else ''False'')"

subsection \<open>\<^verbatim>\<open>json.dumps\<close> with its default arguments\<close>

definition hex_char :: "nat \<Rightarrow> char" where
  "hex_char d = ''0123456789abcdef'' ! d"

text \<open>
  The escape of one character under \<^verbatim>\<open>ensure_ascii=True\<close>: the backslash and the
  double quote, the five short escapes, and \<^verbatim>\<open>\u00xx\<close> for every other character
  outside the printable range from the space to the tilde.
\<close>

definition json_escape_char :: "char \<Rightarrow> string" where
  "json_escape_char c =
     (let n = (of_char c :: nat) in
      if n = 0x5C then [CHR 0x5C, CHR 0x5C]
      else if n = 0x22 then [CHR 0x5C, CHR 0x22]
      else if n = 0x08 then [CHR 0x5C, CHR ''b'']
      else if n = 0x0C then [CHR 0x5C, CHR ''f'']
      else if n = 0x0A then [CHR 0x5C, CHR ''n'']
      else if n = 0x0D then [CHR 0x5C, CHR ''r'']
      else if n = 0x09 then [CHR 0x5C, CHR ''t'']
      else if n < 0x20 \<or> 0x7E < n
        then [CHR 0x5C, CHR ''u'', CHR ''0'', CHR ''0'', hex_char (n div 16), hex_char (n mod 16)]
      else [c])"

definition json_string :: "string \<Rightarrow> string" where
  "json_string s = [CHR 0x22] @ concat (map json_escape_char s) @ [CHR 0x22]"

text \<open>The items of a list or dictionary, joined by a comma and a space.\<close>

fun join_items :: "string list \<Rightarrow> string" where
  "join_items [] = []"
| "join_items [x] = x"
| "join_items (x # y # ys) = x @ '', '' @ join_items (y # ys)"

primrec json_dumps :: "pyval \<Rightarrow> string"
  and json_dumps_list :: "pyval list \<Rightarrow> string list"
  and json_dumps_items :: "(string \<times> pyval) list \<Rightarrow> string list"
  and json_dumps_item :: "string \<times> pyval \<Rightarrow> string"
where
  "json_dumps VNone = ''null''"
| "json_dumps (VBool b) = (if b then ''true'' else ''false'')"
| "json_dumps (VInt i) = str_int i"
| "json_dumps (VStr s) = json_string s"
| "json_dumps (VList xs) = ''['' @ join_items (json_dumps_list xs) @ '']''"
| "json_dumps (VDict kvs) = ''{'' @ join_items (json_dumps_items kvs) @ ''}''"
| "json_dumps_list [] = []"
| "json_dumps_list (x # xs) = json_dumps x # json_dumps_list xs"
| "json_dumps_items [] = []"
| "json_dumps_items (kv # kvs) = json_dumps_item kv # json_dumps_items kvs"
| "json_dumps_item (k, v) = json_string k @ '': '' @ json_dumps v"

subsection \<open>Status values of the operator framework\<close>

datatype status_type = ActiveStatus | BlockedStatus | MaintenanceStatus | WaitingStatus

text \<open>\<open>Status t m\<close> is what the call \<^verbatim>\<open>t(m)\<close> of a status class builds.\<close>

datatype status = Status (status_name: status_type) (message: string)

subsection \<open>Exceptions\<close>

text \<open>
  \<^verbatim>\<open>CheckFailed\<close> keeps the message, the status class and the status built from
  both (its \<^verbatim>\<open>__init__\<close>).
\<close>

record check_failed =
  cf_msg :: string
  cf_status_type :: status_type
  cf_status :: status

definition CheckFailed :: "string \<Rightarrow> status_type \<Rightarrow> check_failed" where
  "CheckFailed m t = \<lparr>cf_msg = m, cf_status_type = t, cf_status = Status t m\<rparr>"

text \<open>
  \<^verbatim>\<open>OCIImageResourceError\<close> of the image library: the charm reads its attributes
  \<^verbatim>\<open>status_type\<close> and \<^verbatim>\<open>status\<close>.
\<close>

record oci_error =
  err_status_type :: status_type
  err_status :: status

text \<open>
  The exceptions no handler of the charm catches: \<^verbatim>\<open>KeyError\<close> with the missing key,
  from a subscript of a dictionary; \<^verbatim>\<open>RelationDataError\<close> of the interface library,
  with the payload \<^verbatim>\<open>send_data\<close> refused; \<^verbatim>\<open>RelationParseError\<close> of the interface
  library, with its message.
\<close>

datatype exn = KeyError string | RelationDataError pyval | RelationParseError string

text \<open>
  What leaves one of the three checks of \<^verbatim>\<open>set_pod_spec\<close>: a \<^verbatim>\<open>CheckFailed\<close>, which
  the handler catches, or another exception, which it does not.
\<close>

datatype raised = Check check_failed | Uncaught exn

subsection \<open>Inputs and state\<close>

text \<open>
  The result of \<^verbatim>\<open>get_interfaces(self)\<close> of the interface library: one of the two
  errors the charm catches, with \<^verbatim>\<open>str(err)\<close>, another exception (the library
  raises \<^verbatim>\<open>RelationParseError\<close> on relation data it cannot read), or a dictionary
  from relation names to an interface handle or \<^verbatim>\<open>None\<close>.
\<close>

type_synonym interfaces = "string \<rightharpoonup> nat option"

datatype negotiation =
    NoVersionsListed string
  | NoCompatibleVersions string
  | Raised exn
  | Interfaces interfaces

record env =
  is_leader :: bool
  negotiated :: negotiation
  image_fetch :: "nat \<Rightarrow> oci_error + pyval"
  config :: "string \<rightharpoonup> config_value"
  model_name :: string
  app_name :: string

text \<open>
  \<open>image_fetch env k\<close> is the outcome of the call of \<^verbatim>\<open>self.image.fetch()\<close> that
  follows \<open>k\<close> earlier calls: every call asks the resource again.
\<close>

datatype action =
    IsLeader
  | GetInterfaces
  | ImageFetch
  | SendData nat pyval
  | SendDataRaised nat pyval
  | SetStatus status
  | SetSpec pyval

record state =
  unit_status :: status
  pod_spec :: "pyval option"
  fetch_calls :: nat
  trace :: "action list"

text \<open>
  \<open>unit_status\<close> is \<^verbatim>\<open>self.model.unit.status\<close>, \<open>pod_spec\<close> the last dictionary
  handed to \<^verbatim>\<open>self.model.pod.set_spec\<close>, \<open>fetch_calls\<close> the number of calls of
  \<^verbatim>\<open>self.image.fetch()\<close> so far, and \<open>trace\<close> every call and assignment in the
  order it happened: \<open>SendData h payload\<close> is a call of \<^verbatim>\<open>send_data\<close> on the
  interface \<open>h\<close> that returned, \<open>SendDataRaised h payload\<close> one that raised.
\<close>

section \<open>The operations\<close>

definition record_action :: "action \<Rightarrow> state \<Rightarrow> state" where
  "record_action a s = s\<lparr>trace := trace s @ [a]\<rparr>"

definition set_status :: "status \<Rightarrow> state \<Rightarrow> state" where
  "set_status st s = s\<lparr>unit_status := st, trace := trace s @ [SetStatus st]\<rparr>"

definition set_spec :: "pyval \<Rightarrow> state \<Rightarrow> state" where
  "set_spec spec s = s\<lparr>pod_spec := Some spec, trace := trace s @ [SetSpec spec]\<rparr>"

definition fetch :: "env \<Rightarrow> state \<Rightarrow> (oci_error + pyval) \<times> state" where
  "fetch e s =
     (image_fetch e (fetch_calls s),
      s\<lparr>fetch_calls := Suc (fetch_calls s), trace := trace s @ [ImageFetch]\<rparr>)"

definition check_leader :: "env \<Rightarrow> state \<Rightarrow> (check_failed + unit) \<times> state" where
  "check_leader e s =
     (if \<not> is_leader e
      then (Inl (CheckFailed ''Waiting for leadership'' WaitingStatus), record_action IsLeader s)
      else (Inr (), record_action IsLeader s))"

text \<open>
  \<^verbatim>\<open>_get_interfaces\<close> turns the two errors it names into \<^verbatim>\<open>CheckFailed\<close>; any other
  exception of \<^verbatim>\<open>get_interfaces\<close> passes through it.
\<close>

definition get_interfaces :: "env \<Rightarrow> state \<Rightarrow> (raised + interfaces) \<times> state" where
  "get_interfaces e s =
     (case negotiated e of
        NoVersionsListed err \<Rightarrow>
          (Inl (Check (CheckFailed err WaitingStatus)), record_action GetInterfaces s)
      | NoCompatibleVersions err \<Rightarrow>
          (Inl (Check (CheckFailed err BlockedStatus)), record_action GetInterfaces s)
      | Raised ex \<Rightarrow> (Inl (Uncaught ex), record_action GetInterfaces s)
      | Interfaces ifs \<Rightarrow> (Inr ifs, record_action GetInterfaces s))"

definition check_image_details :: "env \<Rightarrow> state \<Rightarrow> (check_failed + pyval) \<times> state" where
  "check_image_details e s =
     (case fetch e s of
        (Inl err, s') \<Rightarrow> (Inl (CheckFailed (message (err_status err)) (err_status_type err)), s')
      | (Inr image_details, s') \<Rightarrow> (Inr image_details, s'))"

text \<open>
  \<^verbatim>\<open>send_data\<close> of the interface library checks the payload against the schema of
  the ingress relation before it sends it, and raises \<^verbatim>\<open>RelationDataError\<close> when the
  payload does not fit. The schema wants a string \<^verbatim>\<open>prefix\<close>, a string \<^verbatim>\<open>service\<close>
  and an integer \<^verbatim>\<open>port\<close>; the first two are strings in every payload the charm
  builds, so the call raises exactly when \<^verbatim>\<open>port\<close> is not an integer.
\<close>

definition send_data :: "pyval \<Rightarrow> exn option" where
  "send_data payload =
     (case dict_get payload ''port'' of
        Some (VInt i) \<Rightarrow> None
      | _ \<Rightarrow> Some (RelationDataError payload))"

text \<open>
  \<^verbatim>\<open>interfaces["ingress"]\<close> raises \<^verbatim>\<open>KeyError\<close> when the dictionary has no such
  key; \<^verbatim>\<open>None\<close> is false and a handle is true. The payload is built before
  \<^verbatim>\<open>send_data\<close> is called, so a configuration without \<^verbatim>\<open>port\<close> raises before
  the call. The call is the last statement of \<^verbatim>\<open>_configure_ingress\<close> and stands
  outside both \<^verbatim>\<open>try\<close> blocks of \<^verbatim>\<open>set_pod_spec\<close>: what it raises leaves the
  handler.
\<close>

definition configure_ingress :: "env \<Rightarrow> interfaces \<Rightarrow> state \<Rightarrow> (exn + unit) \<times> state" where
  "configure_ingress e ifs s =
     (case ifs ''ingress'' of
        None \<Rightarrow> (Inl (KeyError ''ingress''), s)
      | Some None \<Rightarrow> (Inr (), s)
      | Some (Some h) \<Rightarrow>
          (case config e ''port'' of
             None \<Rightarrow> (Inl (KeyError ''port''), s)
           | Some p \<Rightarrow>
               (let payload =
                      VDict [(''prefix'', VStr ''/katib/''),
                             (''service'', VStr (app_name e)),
                             (''port'', to_pyval p)]
                in case send_data payload of
                     Some ex \<Rightarrow> (Inl ex, record_action (SendDataRaised h payload) s)
                   | None \<Rightarrow> (Inr (), record_action (SendData h payload) s))))"

text \<open>The dictionary \<^verbatim>\<open>set_pod_spec\<close> hands to \<^verbatim>\<open>set_spec\<close> (lines 74 to 111).\<close>

definition build_spec :: "env \<Rightarrow> pyval \<Rightarrow> exn + pyval" where
  "build_spec e image_details =
     (case config e ''port'' of
        None \<Rightarrow> Inl (KeyError ''port'')
      | Some p \<Rightarrow>
          Inr (VDict
            [(''version'', VInt 3),
             (''serviceAccount'',
                VDict [(''roles'',
                  VList [VDict
                    [(''global'', VBool True),
                     (''rules'',
                        VList
                          [VDict [(''apiGroups'', VList [VStr '''']),
                                  (''resources'', VList [VStr ''configmaps'', VStr ''namespaces'']),
                                  (''verbs'', VList [VStr ''*''])],
                           VDict [(''apiGroups'', VList [VStr ''kubeflow.org'']),
                                  (''resources'',
                                     VList [VStr ''experiments'', VStr ''trials'',
                                            VStr ''suggestions'']),
                                  (''verbs'', VList [VStr ''*''])]])]])]),
             (''containers'',
                VList [VDict
                  [(''name'', VStr ''katib-ui''),
                   (''command'', VList [VStr ''./katib-ui'']),
                   (''args'', VList [VStr (''--port='' @ py_str p)]),
                   (''imageDetails'', image_details),
                   (''ports'',
                      VList [VDict [(''name'', VStr ''http''),
                                    (''containerPort'', to_pyval p)]]),
                   (''envConfig'',
                      VDict [(''KATIB_CORE_NAMESPACE'', VStr (model_name e))])]])]))"

text \<open>The first \<^verbatim>\<open>try\<close> block of \<^verbatim>\<open>set_pod_spec\<close>: the three checks in order.\<close>

definition checks :: "env \<Rightarrow> state \<Rightarrow> (raised + interfaces \<times> pyval) \<times> state" where
  "checks e s =
     (case check_leader e s of
        (Inl cf, s1) \<Rightarrow> (Inl (Check cf), s1)
      | (Inr _, s1) \<Rightarrow>
          (case get_interfaces e s1 of
             (Inl r, s2) \<Rightarrow> (Inl r, s2)
           | (Inr ifs, s2) \<Rightarrow>
               (case check_image_details e s2 of
                  (Inl cf, s3) \<Rightarrow> (Inl (Check cf), s3)
                | (Inr image_details, s3) \<Rightarrow> (Inr (ifs, image_details), s3))))"

text \<open>
  The handler returns the exception that leaves it, if any, and the state it has
  reached by then.
\<close>

definition set_pod_spec :: "env \<Rightarrow> state \<Rightarrow> exn option \<times> state" where
  "set_pod_spec e s =
     (case checks e s of
        (Inl (Check cf), s3) \<Rightarrow> (None, set_status (cf_status cf) s3)
      | (Inl (Uncaught ex), s3) \<Rightarrow> (Some ex, s3)
      | (Inr (ifs, _), s3) \<Rightarrow>
          (case configure_ingress e ifs s3 of
             (Inl ex, s4) \<Rightarrow> (Some ex, s4)
           | (Inr _, s4) \<Rightarrow>
               (case fetch e (set_status (Status MaintenanceStatus ''Setting pod spec'') s4) of
                  (Inl err, s6) \<Rightarrow> (None, set_status (err_status err) s6)
                | (Inr image_details, s6) \<Rightarrow>
                    (case build_spec e image_details of
                       Inl ex \<Rightarrow> (Some ex, s6)
                     | Inr spec \<Rightarrow>
                         (None, set_status (Status ActiveStatus []) (set_spec spec s6))))))"

subsection \<open>The sidebar relation\<close>

text \<open>
  \<^verbatim>\<open>event.relation.data[self.app]\<close> is a dictionary from strings to strings; the
  handlers return the exception that leaves them (there is none) and the
  dictionary after the event.
\<close>

type_synonym relation_data = "string \<rightharpoonup> string"

definition sidebar_entry :: "env \<Rightarrow> pyval" where
  "sidebar_entry e =
     VDict [(''app'', VStr (app_name e)),
            (''position'', VInt 5),
            (''type'', VStr ''item''),
            (''link'', VStr ''/katib/''),
            (''text'', VStr ''Experiments (AutoML)''),
            (''icon'', VStr ''kubeflow:katib'')]"

definition on_sidebar_relation_joined :: "env \<Rightarrow> relation_data \<Rightarrow> exn option \<times> relation_data" where
  "on_sidebar_relation_joined e d =
     (if \<not> is_leader e then (None, d)
      else (None, d(''config'' \<mapsto> json_dumps (VList [sidebar_entry e]))))"

definition on_sidebar_relation_departed :: "env \<Rightarrow> relation_data \<Rightarrow> exn option \<times> relation_data" where
  "on_sidebar_relation_departed e d =
     (if \<not> is_leader e then (None, d)
      else (None, d(''config'' \<mapsto> json_dumps (VList []))))"

section \<open>Observing a run\<close>

text \<open>What one run of \<^verbatim>\<open>set_pod_spec\<close> adds to the trace.\<close>

definition run_actions :: "env \<Rightarrow> state \<Rightarrow> action list" where
  "run_actions e s = drop (length (trace s)) (trace (snd (set_pod_spec e s)))"

text \<open>The specs published, the payloads sent and the image fetches made, in order.\<close>

fun published :: "action list \<Rightarrow> pyval list" where
  "published [] = []"
| "published (SetSpec spec # acts) = spec # published acts"
| "published (_ # acts) = published acts"

fun sent :: "action list \<Rightarrow> (nat \<times> pyval) list" where
  "sent [] = []"
| "sent (SendData h payload # acts) = (h, payload) # sent acts"
| "sent (_ # acts) = sent acts"

fun fetches :: "action list \<Rightarrow> nat" where
  "fetches [] = 0"
| "fetches (ImageFetch # acts) = Suc (fetches acts)"
| "fetches (_ # acts) = fetches acts"

text \<open>
  Reading a decimal numeral back, to say that the text \<^verbatim>\<open>str\<close> produces denotes
  the number it was given.
\<close>

definition digit_value :: "char \<Rightarrow> nat" where
  "digit_value c = of_char c - 48"

definition read_nat :: "string \<Rightarrow> nat" where
  "read_nat cs = foldl (\<lambda>n c. 10 * n + digit_value c) 0 cs"

fun read_int :: "string \<Rightarrow> int" where
  "read_int [] = 0"
| "read_int (c # cs) = (if c = CHR ''-'' then - int (read_nat cs) else int (read_nat (c # cs)))"

subsection \<open>Concrete inputs\<close>

text \<open>
  A leader unit of the application \<^verbatim>\<open>katib-ui\<close> in the model \<^verbatim>\<open>kubeflow\<close>, with
  port 8080, an ingress interface and an image resource that resolves; and a
  unit that has done nothing yet.
\<close>

definition example_image :: pyval where
  "example_image = VDict [(''imagePath'', VStr ''katib-ui:v1'')]"

definition example_env :: env where
  "example_env =
     \<lparr>is_leader = True,
      negotiated = Interfaces [''ingress'' \<mapsto> Some 0],
      image_fetch = (\<lambda>k. Inr example_image),
      config = [''port'' \<mapsto> CInt 8080],
      model_name = ''kubeflow'',
      app_name = ''katib-ui''\<rparr>"

definition state0 :: state where
  "state0 =
     \<lparr>unit_status = Status MaintenanceStatus [], pod_spec = None, fetch_calls = 0, trace = []\<rparr>"

definition missing_resource :: oci_error where
  "missing_resource =
     \<lparr>err_status_type = BlockedStatus,
      err_status = Status BlockedStatus ''Missing resource: oci-image''\<rparr>"

text \<open>The spec \<^verbatim>\<open>set_pod_spec\<close> builds from these inputs.\<close>

definition example_spec :: pyval where
  "example_spec = (case build_spec example_env example_image of Inr spec \<Rightarrow> spec | Inl _ \<Rightarrow> VNone)"

section \<open>The paths through the checks\<close>

text \<open>
  One lemma for each way the three checks of \<^verbatim>\<open>set_pod_spec\<close> can end, with the
  state they leave. \<close>

lemma checks_not_leader:
  "\<not> is_leader e \<Longrightarrow>
   checks e s =
     (Inl (Check (CheckFailed ''Waiting for leadership'' WaitingStatus)),
      s\<lparr>trace := trace s @ [IsLeader]\<rparr>)"
  by (simp add: checks_def check_leader_def record_action_def)

lemma checks_no_versions_listed:
  "is_leader e \<Longrightarrow> negotiated e = NoVersionsListed m \<Longrightarrow>
   checks e s =
     (Inl (Check (CheckFailed m WaitingStatus)),
      s\<lparr>trace := trace s @ [IsLeader, GetInterfaces]\<rparr>)"
  by (simp add: checks_def check_leader_def get_interfaces_def record_action_def)

lemma checks_no_compatible_versions:
  "is_leader e \<Longrightarrow> negotiated e = NoCompatibleVersions m \<Longrightarrow>
   checks e s =
     (Inl (Check (CheckFailed m BlockedStatus)),
      s\<lparr>trace := trace s @ [IsLeader, GetInterfaces]\<rparr>)"
  by (simp add: checks_def check_leader_def get_interfaces_def record_action_def)

lemma checks_raised:
  "is_leader e \<Longrightarrow> negotiated e = Raised ex \<Longrightarrow>
   checks e s = (Inl (Uncaught ex), s\<lparr>trace := trace s @ [IsLeader, GetInterfaces]\<rparr>)"
  by (simp add: checks_def check_leader_def get_interfaces_def record_action_def)

lemma checks_fetch_failed:
  "is_leader e \<Longrightarrow> negotiated e = Interfaces ifs \<Longrightarrow> image_fetch e (fetch_calls s) = Inl err \<Longrightarrow>
   checks e s =
     (Inl (Check (CheckFailed (message (err_status err)) (err_status_type err))),
      s\<lparr>fetch_calls := Suc (fetch_calls s), trace := trace s @ [IsLeader, GetInterfaces, ImageFetch]\<rparr>)"
  by (simp add: checks_def check_leader_def get_interfaces_def check_image_details_def
      fetch_def record_action_def)

lemma checks_passed:
  "is_leader e \<Longrightarrow> negotiated e = Interfaces ifs \<Longrightarrow> image_fetch e (fetch_calls s) = Inr d \<Longrightarrow>
   checks e s =
     (Inr (ifs, d),
      s\<lparr>fetch_calls := Suc (fetch_calls s), trace := trace s @ [IsLeader, GetInterfaces, ImageFetch]\<rparr>)"
  by (simp add: checks_def check_leader_def get_interfaces_def check_image_details_def
      fetch_def record_action_def)

subsection \<open>The paths through the handler\<close>

lemmas check_defs =
  checks_def check_leader_def get_interfaces_def check_image_details_def fetch_def
  record_action_def CheckFailed_def

lemmas handler_defs =
  set_pod_spec_def run_actions_def configure_ingress_def Let_def send_data_def build_spec_def
  set_status_def set_spec_def

lemma set_pod_spec_passed:
  assumes "is_leader e" and "negotiated e = Interfaces ifs"
    and "image_fetch e (fetch_calls s) = Inr d1"
  shows "set_pod_spec e s =
     (case configure_ingress e ifs
             (s\<lparr>fetch_calls := Suc (fetch_calls s),
                trace := trace s @ [IsLeader, GetInterfaces, ImageFetch]\<rparr>) of
        (Inl ex, s4) \<Rightarrow> (Some ex, s4)
      | (Inr _, s4) \<Rightarrow>
          (case fetch e (set_status (Status MaintenanceStatus ''Setting pod spec'') s4) of
             (Inl err, s6) \<Rightarrow> (None, set_status (err_status err) s6)
           | (Inr image_details, s6) \<Rightarrow>
               (case build_spec e image_details of
                  Inl ex \<Rightarrow> (Some ex, s6)
                | Inr spec \<Rightarrow> (None, set_status (Status ActiveStatus []) (set_spec spec s6)))))"
  using assms by (simp add: set_pod_spec_def checks_passed)

text \<open>A run that publishes a spec has passed every check and both fetches.\<close>

lemma published_run:
  assumes "spec \<in> set (published (run_actions e s))"
  shows "\<exists>ifs d1 d2.
           is_leader e \<and> negotiated e = Interfaces ifs
           \<and> image_fetch e (fetch_calls s) = Inr d1
           \<and> image_fetch e (Suc (fetch_calls s)) = Inr d2
           \<and> build_spec e d2 = Inr spec
           \<and> published (run_actions e s) = [spec]
           \<and> fst (set_pod_spec e s) = None
           \<and> unit_status (snd (set_pod_spec e s)) = Status ActiveStatus []
           \<and> pod_spec (snd (set_pod_spec e s)) = Some spec"
proof (cases "is_leader e")
  case False
  with assms show ?thesis
    by (simp add: set_pod_spec_def run_actions_def checks_not_leader set_status_def)
next
  case leader: True
  show ?thesis
  proof (cases "negotiated e")
    case (NoVersionsListed m)
    with leader assms show ?thesis
      by (simp add: set_pod_spec_def run_actions_def checks_no_versions_listed set_status_def)
  next
    case (NoCompatibleVersions m)
    with leader assms show ?thesis
      by (simp add: set_pod_spec_def run_actions_def checks_no_compatible_versions set_status_def)
  next
    case (Raised ex)
    with leader assms show ?thesis
      by (simp add: set_pod_spec_def run_actions_def checks_raised)
  next
    case (Interfaces ifs)
    show ?thesis
    proof (cases "image_fetch e (fetch_calls s)")
      case (Inl err)
      with leader Interfaces assms show ?thesis
        by (simp add: set_pod_spec_def run_actions_def checks_fetch_failed set_status_def)
    next
      case (Inr d1)
      from assms show ?thesis
        unfolding run_actions_def set_pod_spec_passed [OF leader Interfaces Inr]
        using leader Interfaces Inr
        by (auto simp: configure_ingress_def Let_def set_status_def set_spec_def fetch_def
            record_action_def split: option.splits sum.splits)
    qed
  qed
qed

section \<open>Decimal numerals read back\<close>

lemma read_nat_snoc: "read_nat (cs @ [c]) = 10 * read_nat cs + digit_value c"
  by (simp add: read_nat_def)

lemma digit_char_cases:
  assumes "d < (10::nat)"
  shows "d \<in> {0, 1, 2, 3, 4, 5, 6, 7, 8, 9}"
  using assms by auto

lemma digit_value_digit_char: "d < 10 \<Longrightarrow> digit_value (digit_char d) = d"
  using digit_char_cases [of d] by (auto simp: digit_char_def digit_value_def)

lemma digit_char_not_minus: "d < 10 \<Longrightarrow> digit_char d \<noteq> CHR ''-''"
  using digit_char_cases [of d] by (auto simp: digit_char_def)

lemma read_nat_dec_digits: "read_nat (dec_digits n) = n"
proof (induction n rule: dec_digits.induct)
  case (1 n)
  show ?case
  proof (cases "n < 10")
    case True
    then show ?thesis
      by (subst dec_digits.simps) (simp add: read_nat_def digit_value_digit_char)
  next
    case False
    with 1 have "read_nat (dec_digits (n div 10)) = n div 10" by simp
    with False show ?thesis
      by (subst dec_digits.simps) (simp add: read_nat_snoc digit_value_digit_char)
  qed
qed

lemma hd_dec_digits: "\<exists>c cs. dec_digits n = c # cs \<and> c \<noteq> CHR ''-''"
proof (induction n rule: dec_digits.induct)
  case (1 n)
  show ?case
  proof (cases "n < 10")
    case True
    then show ?thesis
      by (subst dec_digits.simps) (simp add: digit_char_not_minus)
  next
    case False
    with 1 obtain c cs where "dec_digits (n div 10) = c # cs" "c \<noteq> CHR ''-''" by auto
    with False show ?thesis
      by (subst dec_digits.simps) simp
  qed
qed

lemma read_int_str_int: "read_int (str_int i) = i"
proof (cases "i < 0")
  case True
  then show ?thesis by (simp add: str_int_def read_nat_dec_digits)
next
  case False
  obtain c cs where cs: "dec_digits (nat i) = c # cs" "c \<noteq> CHR ''-''"
    using hd_dec_digits by blast
  have "read_nat (c # cs) = nat i"
    using read_nat_dec_digits [of "nat i"] cs by simp
  with False cs show ?thesis by (simp add: str_int_def)
qed

section \<open>Evaluating the handlers\<close>

text \<open>The definitions to unfold when a handler is run on concrete inputs.\<close>

lemmas example_defs = example_env_def example_image_def state0_def missing_resource_def

lemmas str_defs = str_int_def dec_digits.simps digit_char_def

lemma example_run_published: "published (run_actions example_env state0) = [example_spec]"
  by (simp add: handler_defs check_defs example_defs example_spec_def)





subsection \<open>The JSON text of the sidebar entry\<close>

lemma sidebar_json:
  "json_dumps
     (VList [VDict [(''app'', VStr name),
                    (''position'', VInt 5),
                    (''type'', VStr ''item''),
                    (''link'', VStr ''/katib/''),
                    (''text'', VStr ''Experiments (AutoML)''),
                    (''icon'', VStr ''kubeflow:katib'')]]) =
   ''[{\"app\": '' @ json_string name @
   '', \"position\": 5, \"type\": \"item\", \"link\": \"/katib/\", \"text\": \"Experiments (AutoML)\", \"icon\": \"kubeflow:katib\"}]''"
  by (simp add: json_string_def json_escape_char_def str_defs)

section \<open>The claims\<close>

text \<open>
  C1. For every configuration whose \<^verbatim>\<open>port\<close> is the integer \<open>p\<close>, a run of
  \<^verbatim>\<open>set_pod_spec\<close> that publishes a spec publishes exactly one; it has exactly one
  container, whose \<^verbatim>\<open>args\<close> are the single string \<^verbatim>\<open>--port=\<close> followed by the decimal
  numeral of \<open>p\<close> (which reads back as \<open>p\<close>), and whose \<^verbatim>\<open>ports\<close> are a single port
  with \<^verbatim>\<open>containerPort\<close> \<open>p\<close>.
\<close>

theorem published_spec_port:
  assumes "config e ''port'' = Some (CInt p)"
    and "spec \<in> set (published (run_actions e s))"
  shows "published (run_actions e s) = [spec]
         \<and> pod_spec (snd (set_pod_spec e s)) = Some spec
         \<and> (\<exists>c pt. dict_get spec ''containers'' = Some (VList [c])
               \<and> dict_get c ''args'' = Some (VList [VStr (''--port='' @ str_int p)])
               \<and> read_int (str_int p) = p
               \<and> dict_get c ''ports'' = Some (VList [pt])
               \<and> dict_get pt ''containerPort'' = Some (VInt p))"
proof -
  from published_run [OF assms(2)] obtain d2 where
    spec: "build_spec e d2 = Inr spec" and
    one: "published (run_actions e s) = [spec]" and
    last: "pod_spec (snd (set_pod_spec e s)) = Some spec"
    by blast
  from spec assms(1) have
    "\<exists>c pt. dict_get spec ''containers'' = Some (VList [c])
       \<and> dict_get c ''args'' = Some (VList [VStr (''--port='' @ str_int p)])
       \<and> dict_get c ''ports'' = Some (VList [pt])
       \<and> dict_get pt ''containerPort'' = Some (VInt p)"
    by (auto simp: build_spec_def)
  with one last show ?thesis
    by (simp add: read_int_str_int)
qed

theorem published_spec_port_witness:
  "config example_env ''port'' = Some (CInt 8080)
   \<and> example_spec \<in> set (published (run_actions example_env state0))
   \<and> (\<exists>c pt. dict_get example_spec ''containers'' = Some (VList [c])
         \<and> dict_get c ''args'' = Some (VList [VStr ''--port=8080''])
         \<and> dict_get c ''ports'' = Some (VList [pt])
         \<and> dict_get pt ''containerPort'' = Some (VInt 8080))"
proof -
  have port: "config example_env ''port'' = Some (CInt 8080)"
    by (simp add: example_env_def)
  have run: "example_spec \<in> set (published (run_actions example_env state0))"
    by (simp add: example_run_published)
  have "str_int 8080 = ''8080''"
    by (simp add: str_defs)
  with published_spec_port [OF port run] port run show ?thesis
    by auto
qed

text \<open>
  C2. Whatever the other inputs are, when the unit is not the leader
  \<^verbatim>\<open>set_pod_spec\<close> asks for leadership, sets the status
  \<^verbatim>\<open>Waiting("Waiting for leadership")\<close> and does nothing else: no interface
  negotiation, no image fetch, no data sent, no spec published, no exception.
\<close>

theorem not_leader_waits:
  assumes "\<not> is_leader e"
  shows "set_pod_spec e s =
           (None,
            s\<lparr>unit_status := Status WaitingStatus ''Waiting for leadership'',
              trace := trace s @
                [IsLeader, SetStatus (Status WaitingStatus ''Waiting for leadership'')]\<rparr>)
         \<and> run_actions e s =
             [IsLeader, SetStatus (Status WaitingStatus ''Waiting for leadership'')]
         \<and> pod_spec (snd (set_pod_spec e s)) = pod_spec s
         \<and> fetch_calls (snd (set_pod_spec e s)) = fetch_calls s"
  using assms
  by (simp add: set_pod_spec_def run_actions_def checks_not_leader CheckFailed_def set_status_def)

theorem not_leader_waits_witness:
  "\<not> is_leader (example_env\<lparr>is_leader := False\<rparr>)
   \<and> set_pod_spec (example_env\<lparr>is_leader := False\<rparr>) state0 =
       (None,
        \<lparr>unit_status = Status WaitingStatus ''Waiting for leadership'', pod_spec = None,
         fetch_calls = 0,
         trace = [IsLeader, SetStatus (Status WaitingStatus ''Waiting for leadership'')]\<rparr>)"
  using not_leader_waits [of "example_env\<lparr>is_leader := False\<rparr>" state0]
  by (simp add: state0_def)

text \<open>
  C3. In a run of \<^verbatim>\<open>set_pod_spec\<close> by the leader, when the interface negotiation
  raises \<^verbatim>\<open>NoVersionsListed\<close> the status becomes \<^verbatim>\<open>Waiting\<close> with the error's
  message, and when it raises \<^verbatim>\<open>NoCompatibleVersions\<close> the status becomes
  \<^verbatim>\<open>Blocked\<close> with the error's message, never the other way round; in both cases
  the run stops there, with no image fetch and no spec published.
\<close>

theorem negotiation_error_severity:
  assumes "is_leader e"
  shows "(negotiated e = NoVersionsListed m \<longrightarrow>
            set_pod_spec e s =
              (None,
               s\<lparr>unit_status := Status WaitingStatus m,
                 trace := trace s @
                   [IsLeader, GetInterfaces, SetStatus (Status WaitingStatus m)]\<rparr>)
            \<and> unit_status (snd (set_pod_spec e s)) \<noteq> Status BlockedStatus m
            \<and> pod_spec (snd (set_pod_spec e s)) = pod_spec s
            \<and> published (run_actions e s) = [])
       \<and> (negotiated e = NoCompatibleVersions m \<longrightarrow>
            set_pod_spec e s =
              (None,
               s\<lparr>unit_status := Status BlockedStatus m,
                 trace := trace s @
                   [IsLeader, GetInterfaces, SetStatus (Status BlockedStatus m)]\<rparr>)
            \<and> unit_status (snd (set_pod_spec e s)) \<noteq> Status WaitingStatus m
            \<and> pod_spec (snd (set_pod_spec e s)) = pod_spec s
            \<and> published (run_actions e s) = [])"
  using assms
  by (simp add: set_pod_spec_def run_actions_def checks_no_versions_listed
      checks_no_compatible_versions CheckFailed_def set_status_def)

theorem negotiation_error_severity_witness:
  "is_leader (example_env\<lparr>negotiated := NoVersionsListed ''no versions''\<rparr>)
   \<and> is_leader (example_env\<lparr>negotiated := NoCompatibleVersions ''no match''\<rparr>)
   \<and> negotiated (example_env\<lparr>negotiated := NoVersionsListed ''no versions''\<rparr>) =
       NoVersionsListed ''no versions''
   \<and> unit_status (snd (set_pod_spec
        (example_env\<lparr>negotiated := NoVersionsListed ''no versions''\<rparr>) state0)) =
       Status WaitingStatus ''no versions''
   \<and> negotiated (example_env\<lparr>negotiated := NoCompatibleVersions ''no match''\<rparr>) =
       NoCompatibleVersions ''no match''
   \<and> unit_status (snd (set_pod_spec
        (example_env\<lparr>negotiated := NoCompatibleVersions ''no match''\<rparr>) state0)) =
       Status BlockedStatus ''no match''"
  using
    negotiation_error_severity
      [of "example_env\<lparr>negotiated := NoVersionsListed ''no versions''\<rparr>" "''no versions''" state0]
    negotiation_error_severity
      [of "example_env\<lparr>negotiated := NoCompatibleVersions ''no match''\<rparr>" "''no match''" state0]
  by (simp add: example_env_def)

text \<open>
  C4. In a run of \<^verbatim>\<open>set_pod_spec\<close> whose leadership check and interface negotiation
  pass, a failed image fetch publishes no spec and decides the status. When the
  first fetch (the check) fails, the status is the error's \<^verbatim>\<open>status_type\<close> applied
  to the message of the error's \<^verbatim>\<open>status\<close>; when the first fetch succeeds and the
  run reaches its second fetch, which fails, the status is the error's \<^verbatim>\<open>status\<close>
  itself.
\<close>

theorem image_error_status:
  assumes "is_leader e" and "negotiated e = Interfaces ifs"
  shows "(image_fetch e (fetch_calls s) = Inl err \<longrightarrow>
            set_pod_spec e s =
              (None,
               s\<lparr>unit_status := Status (err_status_type err) (message (err_status err)),
                 fetch_calls := Suc (fetch_calls s),
                 trace := trace s @
                   [IsLeader, GetInterfaces, ImageFetch,
                    SetStatus (Status (err_status_type err) (message (err_status err)))]\<rparr>)
            \<and> pod_spec (snd (set_pod_spec e s)) = pod_spec s
            \<and> published (run_actions e s) = [])
       \<and> (image_fetch e (fetch_calls s) = Inr d1 \<and> fetches (run_actions e s) = 2
            \<and> image_fetch e (Suc (fetch_calls s)) = Inl err \<longrightarrow>
            fst (set_pod_spec e s) = None
            \<and> unit_status (snd (set_pod_spec e s)) = err_status err
            \<and> pod_spec (snd (set_pod_spec e s)) = pod_spec s
            \<and> published (run_actions e s) = [])"
proof (intro conjI impI)
  assume first: "image_fetch e (fetch_calls s) = Inl err"
  have run: "set_pod_spec e s =
      (None,
       s\<lparr>unit_status := Status (err_status_type err) (message (err_status err)),
         fetch_calls := Suc (fetch_calls s),
         trace := trace s @
           [IsLeader, GetInterfaces, ImageFetch,
            SetStatus (Status (err_status_type err) (message (err_status err)))]\<rparr>)"
    using assms first
    by (simp add: set_pod_spec_def checks_fetch_failed CheckFailed_def set_status_def)
  show "set_pod_spec e s =
      (None,
       s\<lparr>unit_status := Status (err_status_type err) (message (err_status err)),
         fetch_calls := Suc (fetch_calls s),
         trace := trace s @
           [IsLeader, GetInterfaces, ImageFetch,
            SetStatus (Status (err_status_type err) (message (err_status err)))]\<rparr>)"
    by (rule run)
  show "pod_spec (snd (set_pod_spec e s)) = pod_spec s"
    by (simp add: run)
  show "published (run_actions e s) = []"
    by (simp add: run_actions_def run)
next
  assume second: "image_fetch e (fetch_calls s) = Inr d1 \<and> fetches (run_actions e s) = 2
    \<and> image_fetch e (Suc (fetch_calls s)) = Inl err"
  then have first: "image_fetch e (fetch_calls s) = Inr d1" by simp
  note run = set_pod_spec_passed [OF assms first]
  from second have
    "fst (set_pod_spec e s) = None
     \<and> unit_status (snd (set_pod_spec e s)) = err_status err
     \<and> pod_spec (snd (set_pod_spec e s)) = pod_spec s
     \<and> published (run_actions e s) = []"
    unfolding run_actions_def run
    by (auto simp: configure_ingress_def Let_def set_status_def fetch_def record_action_def
        split: option.splits)
  then show "fst (set_pod_spec e s) = None"
    and "unit_status (snd (set_pod_spec e s)) = err_status err"
    and "pod_spec (snd (set_pod_spec e s)) = pod_spec s"
    and "published (run_actions e s) = []"
    by simp_all
qed

theorem image_error_status_witness:
  "is_leader (example_env\<lparr>image_fetch := \<lambda>k. Inl missing_resource\<rparr>)
   \<and> negotiated (example_env\<lparr>image_fetch := \<lambda>k. Inl missing_resource\<rparr>) =
       Interfaces [''ingress'' \<mapsto> Some 0]
   \<and> image_fetch (example_env\<lparr>image_fetch := \<lambda>k. Inl missing_resource\<rparr>) (fetch_calls state0) =
       Inl missing_resource
   \<and> set_pod_spec (example_env\<lparr>image_fetch := \<lambda>k. Inl missing_resource\<rparr>) state0 =
       (None,
        \<lparr>unit_status = Status BlockedStatus ''Missing resource: oci-image'', pod_spec = None,
         fetch_calls = 1,
         trace = [IsLeader, GetInterfaces, ImageFetch,
                  SetStatus (Status BlockedStatus ''Missing resource: oci-image'')]\<rparr>)
   \<and> is_leader (example_env\<lparr>image_fetch :=
         \<lambda>k. if k = 0 then Inr example_image else Inl missing_resource\<rparr>)
   \<and> negotiated (example_env\<lparr>image_fetch :=
         \<lambda>k. if k = 0 then Inr example_image else Inl missing_resource\<rparr>) =
       Interfaces [''ingress'' \<mapsto> Some 0]
   \<and> image_fetch (example_env\<lparr>image_fetch :=
         \<lambda>k. if k = 0 then Inr example_image else Inl missing_resource\<rparr>)
         (fetch_calls state0) = Inr example_image
   \<and> image_fetch (example_env\<lparr>image_fetch :=
         \<lambda>k. if k = 0 then Inr example_image else Inl missing_resource\<rparr>)
         (Suc (fetch_calls state0)) = Inl missing_resource
   \<and> fetches (run_actions (example_env\<lparr>image_fetch :=
         \<lambda>k. if k = 0 then Inr example_image else Inl missing_resource\<rparr>) state0) = 2
   \<and> unit_status (snd (set_pod_spec (example_env\<lparr>image_fetch :=
         \<lambda>k. if k = 0 then Inr example_image else Inl missing_resource\<rparr>) state0)) =
       Status BlockedStatus ''Missing resource: oci-image''
   \<and> published (run_actions (example_env\<lparr>image_fetch :=
         \<lambda>k. if k = 0 then Inr example_image else Inl missing_resource\<rparr>) state0) = []"
proof -
  let ?e1 = "example_env\<lparr>image_fetch := \<lambda>k. Inl missing_resource\<rparr>"
  let ?e2 = "example_env\<lparr>image_fetch :=
    \<lambda>k. if k = 0 then Inr example_image else Inl missing_resource\<rparr>"
  have l1: "is_leader ?e1" and n1: "negotiated ?e1 = Interfaces [''ingress'' \<mapsto> Some 0]"
    and f1: "image_fetch ?e1 (fetch_calls state0) = Inl missing_resource"
    by (simp_all add: example_env_def)
  have l2: "is_leader ?e2" and n2: "negotiated ?e2 = Interfaces [''ingress'' \<mapsto> Some 0]"
    and f2: "image_fetch ?e2 (fetch_calls state0) = Inr example_image"
    and g2: "image_fetch ?e2 (Suc (fetch_calls state0)) = Inl missing_resource"
    by (simp_all add: example_env_def state0_def)
  have twice: "fetches (run_actions ?e2 state0) = 2"
    by (simp add: handler_defs check_defs example_defs)
  from image_error_status [OF l1 n1, of state0 missing_resource]
    image_error_status [OF l2 n2, of state0 missing_resource example_image]
    l1 n1 f1 l2 n2 f2 g2 twice
  show ?thesis
    by (simp add: state0_def missing_resource_def)
qed




text \<open>
  C6, as the code has it. \<^verbatim>\<open>set_pod_spec\<close> catches what its checks raise as
  \<^verbatim>\<open>CheckFailed\<close> and the image resource error of the second fetch, and nothing
  else. So no exception leaves it when \<^verbatim>\<open>get_interfaces\<close> raises nothing but the
  two errors \<^verbatim>\<open>_get_interfaces\<close> names, the configured \<^verbatim>\<open>port\<close> is an integer and
  the negotiated interface set has an \<^verbatim>\<open>ingress\<close> key: what goes wrong then shows
  in the status only. Any other exception of \<^verbatim>\<open>get_interfaces\<close> leaves the handler
  as it is, before any status is set. The two sidebar handlers raise nothing.
\<close>

theorem no_exception_with_integer_port:
  "(config e ''port'' = Some (CInt i)
      \<and> (\<forall>ex. negotiated e \<noteq> Raised ex)
      \<and> (\<forall>ifs. negotiated e = Interfaces ifs \<longrightarrow> ifs ''ingress'' \<noteq> None) \<longrightarrow>
    fst (set_pod_spec e s) = None)
   \<and> (is_leader e \<and> negotiated e = Raised ex' \<longrightarrow>
        set_pod_spec e s = (Some ex', s\<lparr>trace := trace s @ [IsLeader, GetInterfaces]\<rparr>))
   \<and> fst (on_sidebar_relation_joined e d) = None
   \<and> fst (on_sidebar_relation_departed e d) = None"
proof (intro conjI impI)
  show "fst (on_sidebar_relation_joined e d) = None"
    by (simp add: on_sidebar_relation_joined_def)
  show "fst (on_sidebar_relation_departed e d) = None"
    by (simp add: on_sidebar_relation_departed_def)
  show "set_pod_spec e s = (Some ex', s\<lparr>trace := trace s @ [IsLeader, GetInterfaces]\<rparr>)"
    if "is_leader e \<and> negotiated e = Raised ex'"
    using that by (simp add: set_pod_spec_def checks_raised)
  assume hyp: "config e ''port'' = Some (CInt i)
      \<and> (\<forall>ex. negotiated e \<noteq> Raised ex)
      \<and> (\<forall>ifs. negotiated e = Interfaces ifs \<longrightarrow> ifs ''ingress'' \<noteq> None)"
  then have port: "config e ''port'' = Some (CInt i)"
    and caught: "\<And>ex. negotiated e \<noteq> Raised ex"
    and key: "\<And>ifs. negotiated e = Interfaces ifs \<Longrightarrow> ifs ''ingress'' \<noteq> None"
    by simp_all
  show "fst (set_pod_spec e s) = None"
  proof (cases "is_leader e")
    case False
    then show ?thesis
      by (simp add: set_pod_spec_def checks_not_leader)
  next
    case leader: True
    show ?thesis
    proof (cases "negotiated e")
      case (NoVersionsListed m)
      with leader show ?thesis
        by (simp add: set_pod_spec_def checks_no_versions_listed)
    next
      case (NoCompatibleVersions m)
      with leader show ?thesis
        by (simp add: set_pod_spec_def checks_no_compatible_versions)
    next
      case (Raised ex)
      with caught [of ex] show ?thesis
        by simp
    next
      case (Interfaces ifs)
      with key obtain entry where entry: "ifs ''ingress'' = Some entry"
        by fastforce
      show ?thesis
      proof (cases "image_fetch e (fetch_calls s)")
        case (Inl err)
        with leader Interfaces show ?thesis
          by (simp add: set_pod_spec_def checks_fetch_failed)
      next
        case (Inr d1)
        show ?thesis
          unfolding set_pod_spec_passed [OF leader Interfaces Inr]
          using port entry
          by (auto simp: configure_ingress_def send_data_def build_spec_def fetch_def
              split: option.splits sum.splits)
      qed
    qed
  qed
qed

theorem no_exception_with_integer_port_witness:
  "config example_env ''port'' = Some (CInt 8080)
   \<and> negotiated example_env = Interfaces [''ingress'' \<mapsto> Some 0]
   \<and> [''ingress'' \<mapsto> Some (0::nat)] ''ingress'' \<noteq> None
   \<and> fst (set_pod_spec example_env state0) = None
   \<and> is_leader (example_env\<lparr>negotiated := Raised (RelationParseError ''ingress'')\<rparr>)
   \<and> negotiated (example_env\<lparr>negotiated := Raised (RelationParseError ''ingress'')\<rparr>) =
       Raised (RelationParseError ''ingress'')
   \<and> fst (set_pod_spec (example_env\<lparr>negotiated := Raised (RelationParseError ''ingress'')\<rparr>)
        state0) = Some (RelationParseError ''ingress'')
   \<and> fst (on_sidebar_relation_joined example_env Map.empty) = None
   \<and> fst (on_sidebar_relation_departed example_env Map.empty) = None"
proof -
  let ?bad = "example_env\<lparr>negotiated := Raised (RelationParseError ''ingress'')\<rparr>"
  have port: "config example_env ''port'' = Some (CInt 8080)"
    and neg: "negotiated example_env = Interfaces [''ingress'' \<mapsto> Some 0]"
    and caught: "\<forall>ex. negotiated example_env \<noteq> Raised ex"
    and key: "\<forall>ifs. negotiated example_env = Interfaces ifs \<longrightarrow> ifs ''ingress'' \<noteq> None"
    and bad: "is_leader ?bad" "negotiated ?bad = Raised (RelationParseError ''ingress'')"
    by (simp_all add: example_env_def)
  from no_exception_with_integer_port
      [where e = example_env and i = 8080 and s = state0 and d = Map.empty] port caught key
  have ok: "fst (set_pod_spec example_env state0) = None"
    and side: "fst (on_sidebar_relation_joined example_env Map.empty) = None"
      "fst (on_sidebar_relation_departed example_env Map.empty) = None"
    by blast+
  from no_exception_with_integer_port
      [where e = ?bad and s = state0 and ex' = "RelationParseError ''ingress''"] bad
  have raises: "fst (set_pod_spec ?bad state0) = Some (RelationParseError ''ingress'')"
    by simp
  from port neg ok side bad raises show ?thesis
    by simp
qed

text \<open>
  C6 as stated fails where \<^verbatim>\<open>get_interfaces\<close> raises an error other than the two
  \<^verbatim>\<open>_get_interfaces\<close> names (the interface library raises \<^verbatim>\<open>RelationParseError\<close> on
  relation data it cannot read): neither \<^verbatim>\<open>except\<close> clause of \<^verbatim>\<open>_get_interfaces\<close>
  nor the \<^verbatim>\<open>except CheckFailed\<close> of \<^verbatim>\<open>set_pod_spec\<close> catches it, so it leaves the
  handler, with the leader, an integer port and the status left as it was.
\<close>

theorem unreadable_relation_raises:
  "is_leader (example_env\<lparr>negotiated := Raised (RelationParseError ''ingress'')\<rparr>)
   \<and> config (example_env\<lparr>negotiated := Raised (RelationParseError ''ingress'')\<rparr>) ''port'' =
       Some (CInt 8080)
   \<and> set_pod_spec (example_env\<lparr>negotiated := Raised (RelationParseError ''ingress'')\<rparr>) state0 =
       (Some (RelationParseError ''ingress''),
        \<lparr>unit_status = Status MaintenanceStatus [], pod_spec = None, fetch_calls = 0,
         trace = [IsLeader, GetInterfaces]\<rparr>)"
  by (simp add: handler_defs check_defs example_defs)

text \<open>
  C7. When the unit is the leader, \<^verbatim>\<open>sidebar-relation-joined\<close> writes under the key
  \<^verbatim>\<open>config\<close> the JSON text of a list of one object with \<^verbatim>\<open>app\<close> the application's
  name, \<^verbatim>\<open>position\<close> 5, \<^verbatim>\<open>type\<close> \<^verbatim>\<open>item\<close>, \<^verbatim>\<open>link\<close> \<^verbatim>\<open>/katib/\<close>, \<^verbatim>\<open>text\<close>
  \<^verbatim>\<open>Experiments (AutoML)\<close> and \<^verbatim>\<open>icon\<close> \<^verbatim>\<open>kubeflow:katib\<close>, and
  \<^verbatim>\<open>sidebar-relation-departed\<close> writes the JSON text of the empty list under the
  same key; every other key keeps its value. When the unit is not the leader,
  both events leave the relation data as it was.
\<close>

theorem sidebar_relation_config:
  "(is_leader e \<longrightarrow>
      on_sidebar_relation_joined e d =
        (None,
         d(''config'' \<mapsto>
           json_dumps
             (VList [VDict [(''app'', VStr (app_name e)),
                            (''position'', VInt 5),
                            (''type'', VStr ''item''),
                            (''link'', VStr ''/katib/''),
                            (''text'', VStr ''Experiments (AutoML)''),
                            (''icon'', VStr ''kubeflow:katib'')]])))
      \<and> snd (on_sidebar_relation_joined e d) ''config'' =
          Some (''[{\"app\": '' @ json_string (app_name e) @
            '', \"position\": 5, \"type\": \"item\", \"link\": \"/katib/\", \"text\": \"Experiments (AutoML)\", \"icon\": \"kubeflow:katib\"}]'')
      \<and> on_sidebar_relation_departed e d = (None, d(''config'' \<mapsto> json_dumps (VList [])))
      \<and> snd (on_sidebar_relation_departed e d) ''config'' = Some ''[]'')
   \<and> (\<not> is_leader e \<longrightarrow>
      on_sidebar_relation_joined e d = (None, d)
      \<and> on_sidebar_relation_departed e d = (None, d))"
  by (simp add: on_sidebar_relation_joined_def on_sidebar_relation_departed_def
      sidebar_entry_def sidebar_json del: json_dumps.simps)
    (simp add: on_sidebar_relation_departed_def)

theorem sidebar_relation_config_witness:
  "is_leader example_env
   \<and> snd (on_sidebar_relation_joined example_env Map.empty) ''config'' =
       Some ''[{\"app\": \"katib-ui\", \"position\": 5, \"type\": \"item\", \"link\": \"/katib/\", \"text\": \"Experiments (AutoML)\", \"icon\": \"kubeflow:katib\"}]''
   \<and> snd (on_sidebar_relation_departed example_env [''config'' \<mapsto> ''[{}]'']) ''config'' =
       Some ''[]''
   \<and> \<not> is_leader (example_env\<lparr>is_leader := False\<rparr>)
   \<and> snd (on_sidebar_relation_joined (example_env\<lparr>is_leader := False\<rparr>) Map.empty) ''config'' =
       None
   \<and> snd (on_sidebar_relation_departed (example_env\<lparr>is_leader := False\<rparr>)
        [''config'' \<mapsto> ''[{}]'']) ''config'' = Some ''[{}]''"
proof -
  have l: "is_leader example_env" and n: "\<not> is_leader (example_env\<lparr>is_leader := False\<rparr>)"
    and a: "app_name example_env = ''katib-ui''"
    by (simp_all add: example_env_def)
  have j: "json_string ''katib-ui'' = ''\"katib-ui\"''"
    by (simp add: json_string_def json_escape_char_def)
  from sidebar_relation_config [of example_env Map.empty]
    sidebar_relation_config [of example_env "[''config'' \<mapsto> ''[{}]'']"]
    sidebar_relation_config [of "example_env\<lparr>is_leader := False\<rparr>" Map.empty]
    sidebar_relation_config [of "example_env\<lparr>is_leader := False\<rparr>" "[''config'' \<mapsto> ''[{}]'']"]
    l n a j
  show ?thesis
    by (simp add: json_string_def json_escape_char_def str_defs)
qed

text \<open>
  C8. End to end: the unit is the leader, the port is 8080, the negotiated
  interface set has an ingress interface and both image fetches succeed. Then
  \<^verbatim>\<open>set_pod_spec\<close> returns with the status \<^verbatim>\<open>Active\<close>, having sent the payload
  with prefix \<^verbatim>\<open>/katib/\<close>, the application's name and port 8080 over the ingress
  interface and published a spec with version 3 and one container: its name is
  \<^verbatim>\<open>katib-ui\<close>, its command \<^verbatim>\<open>./katib-ui\<close>, its argument \<^verbatim>\<open>--port=8080\<close>, its image
  the result of the second fetch, its one port \<^verbatim>\<open>http\<close> with \<^verbatim>\<open>containerPort\<close> 8080,
  and its environment \<^verbatim>\<open>KATIB_CORE_NAMESPACE\<close> set to the model's name.
\<close>

theorem end_to_end_port_8080:
  assumes "is_leader e" and "config e ''port'' = Some (CInt 8080)"
    and "negotiated e = Interfaces ifs" and "ifs ''ingress'' = Some (Some h)"
    and "image_fetch e (fetch_calls s) = Inr d1"
    and "image_fetch e (Suc (fetch_calls s)) = Inr d2"
  shows "\<exists>spec c.
           set_pod_spec e s =
             (None,
              s\<lparr>unit_status := Status ActiveStatus [],
                pod_spec := Some spec,
                fetch_calls := Suc (Suc (fetch_calls s)),
                trace := trace s @
                  [IsLeader, GetInterfaces, ImageFetch,
                   SendData h
                     (VDict [(''prefix'', VStr ''/katib/''),
                             (''service'', VStr (app_name e)),
                             (''port'', VInt 8080)]),
                   SetStatus (Status MaintenanceStatus ''Setting pod spec''),
                   ImageFetch, SetSpec spec, SetStatus (Status ActiveStatus [])]\<rparr>)
           \<and> dict_get spec ''version'' = Some (VInt 3)
           \<and> dict_get spec ''containers'' = Some (VList [c])
           \<and> dict_get c ''name'' = Some (VStr ''katib-ui'')
           \<and> dict_get c ''command'' = Some (VList [VStr ''./katib-ui''])
           \<and> dict_get c ''args'' = Some (VList [VStr ''--port=8080''])
           \<and> dict_get c ''imageDetails'' = Some d2
           \<and> dict_get c ''ports'' =
               Some (VList [VDict [(''name'', VStr ''http''), (''containerPort'', VInt 8080)]])
           \<and> dict_get c ''envConfig'' =
               Some (VDict [(''KATIB_CORE_NAMESPACE'', VStr (model_name e))])"
proof -
  have port: "str_int 8080 = ''8080''"
    by (simp add: str_defs)
  obtain spec where spec: "build_spec e d2 = Inr spec"
    using assms(2) by (simp add: build_spec_def)
  have run: "set_pod_spec e s =
      (None,
       s\<lparr>unit_status := Status ActiveStatus [],
         pod_spec := Some spec,
         fetch_calls := Suc (Suc (fetch_calls s)),
         trace := trace s @
           [IsLeader, GetInterfaces, ImageFetch,
            SendData h
              (VDict [(''prefix'', VStr ''/katib/''),
                      (''service'', VStr (app_name e)),
                      (''port'', VInt 8080)]),
            SetStatus (Status MaintenanceStatus ''Setting pod spec''),
            ImageFetch, SetSpec spec, SetStatus (Status ActiveStatus [])]\<rparr>)"
    unfolding set_pod_spec_passed [OF assms(1,3,5)]
    using assms(2,4,6) spec
    by (simp add: configure_ingress_def send_data_def fetch_def set_status_def set_spec_def
        record_action_def)
  from spec assms(2) port have shape:
    "\<exists>c. dict_get spec ''version'' = Some (VInt 3)
       \<and> dict_get spec ''containers'' = Some (VList [c])
       \<and> dict_get c ''name'' = Some (VStr ''katib-ui'')
       \<and> dict_get c ''command'' = Some (VList [VStr ''./katib-ui''])
       \<and> dict_get c ''args'' = Some (VList [VStr ''--port=8080''])
       \<and> dict_get c ''imageDetails'' = Some d2
       \<and> dict_get c ''ports'' =
           Some (VList [VDict [(''name'', VStr ''http''), (''containerPort'', VInt 8080)]])
       \<and> dict_get c ''envConfig'' =
           Some (VDict [(''KATIB_CORE_NAMESPACE'', VStr (model_name e))])"
    by (auto simp: build_spec_def)
  with run show ?thesis
    by blast
qed

theorem end_to_end_port_8080_witness:
  "is_leader example_env
   \<and> config example_env ''port'' = Some (CInt 8080)
   \<and> negotiated example_env = Interfaces [''ingress'' \<mapsto> Some 0]
   \<and> [''ingress'' \<mapsto> Some (0::nat)] ''ingress'' = Some (Some 0)
   \<and> image_fetch example_env (fetch_calls state0) = Inr example_image
   \<and> image_fetch example_env (Suc (fetch_calls state0)) = Inr example_image
   \<and> fst (set_pod_spec example_env state0) = None
   \<and> unit_status (snd (set_pod_spec example_env state0)) = Status ActiveStatus []
   \<and> pod_spec (snd (set_pod_spec example_env state0)) = Some example_spec
   \<and> sent (run_actions example_env state0) =
       [(0, VDict [(''prefix'', VStr ''/katib/''), (''service'', VStr ''katib-ui''),
                   (''port'', VInt 8080)])]
   \<and> dict_get example_spec ''version'' = Some (VInt 3)"
proof -
  have h: "is_leader example_env" "config example_env ''port'' = Some (CInt 8080)"
    "negotiated example_env = Interfaces [''ingress'' \<mapsto> Some 0]"
    "[''ingress'' \<mapsto> Some (0::nat)] ''ingress'' = Some (Some 0)"
    "image_fetch example_env (fetch_calls state0) = Inr example_image"
    "image_fetch example_env (Suc (fetch_calls state0)) = Inr example_image"
    by (simp_all add: example_env_def)
  from end_to_end_port_8080 [OF h] obtain spec c where
    run: "set_pod_spec example_env state0 =
      (None,
       state0\<lparr>unit_status := Status ActiveStatus [],
         pod_spec := Some spec,
         fetch_calls := Suc (Suc (fetch_calls state0)),
         trace := trace state0 @
           [IsLeader, GetInterfaces, ImageFetch,
            SendData 0
              (VDict [(''prefix'', VStr ''/katib/''),
                      (''service'', VStr (app_name example_env)),
                      (''port'', VInt 8080)]),
            SetStatus (Status MaintenanceStatus ''Setting pod spec''),
            ImageFetch, SetSpec spec, SetStatus (Status ActiveStatus [])]\<rparr>)"
    and version: "dict_get spec ''version'' = Some (VInt 3)"
    by blast
  from run have "published (run_actions example_env state0) = [spec]"
    by (simp add: run_actions_def)
  then have same: "spec = example_spec"
    by (simp add: example_run_published)
  have name: "app_name example_env = ''katib-ui''"
    by (simp add: example_env_def)
  from h run version same name show ?thesis
    by (simp add: run_actions_def)
qed




text \<open>
  C10. Take a run of \<^verbatim>\<open>set_pod_spec\<close> in which the three checks pass and the
  second image fetch is made and fails. By then the run has sent the ingress
  payload, when the ingress entry is an interface (nothing when it is \<^verbatim>\<open>None\<close>),
  and has set the status \<^verbatim>\<open>Maintenance("Setting pod spec")\<close>, in this order; after
  the failure it only sets the status of the error, and the pod spec stays what
  it was.
\<close>

theorem ingress_sent_before_second_fetch_fails:
  assumes "is_leader e" and "negotiated e = Interfaces ifs"
    and "image_fetch e (fetch_calls s) = Inr d1"
    and "fetches (run_actions e s) = 2"
    and "image_fetch e (Suc (fetch_calls s)) = Inl err"
  shows "\<exists>sends.
           run_actions e s =
             [IsLeader, GetInterfaces, ImageFetch] @ sends @
             [SetStatus (Status MaintenanceStatus ''Setting pod spec''), ImageFetch,
              SetStatus (err_status err)]
           \<and> (\<forall>h. ifs ''ingress'' = Some (Some h) \<longrightarrow>
                (\<exists>p. config e ''port'' = Some p
                   \<and> sends =
                       [SendData h
                          (VDict [(''prefix'', VStr ''/katib/''),
                                  (''service'', VStr (app_name e)),
                                  (''port'', to_pyval p)])]))
           \<and> (ifs ''ingress'' = Some None \<longrightarrow> sends = [])
           \<and> fst (set_pod_spec e s) = None
           \<and> unit_status (snd (set_pod_spec e s)) = err_status err
           \<and> pod_spec (snd (set_pod_spec e s)) = pod_spec s
           \<and> published (run_actions e s) = []"
proof -
  note run = set_pod_spec_passed [OF assms(1-3)]
  show ?thesis
  proof (cases "ifs ''ingress''")
    case None
    with assms(4) show ?thesis
      unfolding run_actions_def run
      by (simp add: configure_ingress_def)
  next
    case (Some entry)
    show ?thesis
    proof (cases entry)
      case None
      with Some assms(5) show ?thesis
        unfolding run_actions_def run
        by (simp add: configure_ingress_def fetch_def set_status_def)
    next
      case h: (Some h)
      show ?thesis
      proof (cases "config e ''port''")
        case None
        with Some h assms(4) show ?thesis
          unfolding run_actions_def run
          by (simp add: configure_ingress_def)
      next
        case p: (Some p)
        with Some h assms(4,5) show ?thesis
          unfolding run_actions_def run
          by (auto simp: configure_ingress_def Let_def fetch_def set_status_def record_action_def
              split: option.splits)
      qed
    qed
  qed
qed

theorem ingress_sent_before_second_fetch_fails_witness:
  "is_leader (example_env\<lparr>image_fetch :=
       \<lambda>k. if k = 0 then Inr example_image else Inl missing_resource\<rparr>)
   \<and> negotiated (example_env\<lparr>image_fetch :=
       \<lambda>k. if k = 0 then Inr example_image else Inl missing_resource\<rparr>) =
       Interfaces [''ingress'' \<mapsto> Some 0]
   \<and> image_fetch (example_env\<lparr>image_fetch :=
       \<lambda>k. if k = 0 then Inr example_image else Inl missing_resource\<rparr>) (fetch_calls state0) =
       Inr example_image
   \<and> fetches (run_actions (example_env\<lparr>image_fetch :=
       \<lambda>k. if k = 0 then Inr example_image else Inl missing_resource\<rparr>) state0) = 2
   \<and> image_fetch (example_env\<lparr>image_fetch :=
       \<lambda>k. if k = 0 then Inr example_image else Inl missing_resource\<rparr>)
         (Suc (fetch_calls state0)) = Inl missing_resource
   \<and> run_actions (example_env\<lparr>image_fetch :=
       \<lambda>k. if k = 0 then Inr example_image else Inl missing_resource\<rparr>) state0 =
       [IsLeader, GetInterfaces, ImageFetch,
        SendData 0
          (VDict [(''prefix'', VStr ''/katib/''), (''service'', VStr ''katib-ui''),
                  (''port'', VInt 8080)]),
        SetStatus (Status MaintenanceStatus ''Setting pod spec''), ImageFetch,
        SetStatus (Status BlockedStatus ''Missing resource: oci-image'')]
   \<and> pod_spec (snd (set_pod_spec (example_env\<lparr>image_fetch :=
       \<lambda>k. if k = 0 then Inr example_image else Inl missing_resource\<rparr>) state0)) = None"
proof -
  let ?e = "example_env\<lparr>image_fetch :=
    \<lambda>k. if k = 0 then Inr example_image else Inl missing_resource\<rparr>"
  have h: "is_leader ?e" "negotiated ?e = Interfaces [''ingress'' \<mapsto> Some 0]"
    "image_fetch ?e (fetch_calls state0) = Inr example_image"
    by (simp_all add: example_env_def state0_def)
  have twice: "fetches (run_actions ?e state0) = 2"
    by (simp add: handler_defs check_defs example_defs)
  have second: "image_fetch ?e (Suc (fetch_calls state0)) = Inl missing_resource"
    by (simp add: example_env_def)
  have port: "config ?e ''port'' = Some (CInt 8080)" and name: "app_name ?e = ''katib-ui''"
    by (simp_all add: example_env_def)
  from ingress_sent_before_second_fetch_fails [OF h twice second] port name
  have "run_actions ?e state0 =
       [IsLeader, GetInterfaces, ImageFetch,
        SendData 0
          (VDict [(''prefix'', VStr ''/katib/''), (''service'', VStr ''katib-ui''),
                  (''port'', VInt 8080)]),
        SetStatus (Status MaintenanceStatus ''Setting pod spec''), ImageFetch,
        SetStatus (Status BlockedStatus ''Missing resource: oci-image'')]"
    and "pod_spec (snd (set_pod_spec ?e state0)) = None"
    by (auto simp: missing_resource_def state0_def)
  with h twice second show ?thesis
    by blast
qed

end
